theory Spec2Isabelle
  imports Main "HOL-Library.Word"
begin

unbundle bit_operations_syntax

section \<open>Data model\<close>

text \<open>
  Every value the driver handles is a \<^verbatim>\<open>uint8_t\<close>. The private fields
  \<^verbatim>\<open>_i2cAddress\<close>, \<^verbatim>\<open>_resetPin\<close> and \<^verbatim>\<open>_csPin\<close> are declared
  \<^verbatim>\<open>int8_t\<close>, are only ever assigned from a \<^verbatim>\<open>uint8_t\<close> and only ever passed to a
  \<^verbatim>\<open>uint8_t\<close> parameter, so the eight bits they hold are what matters: all of them are
  8-bit words.
\<close>

type_synonym byte = "8 word"

text \<open>
  The register addresses come from \<^verbatim>\<open>CAP1188_reg.h\<close>, which is not part of the
  sources at hand. The driver is therefore modelled over an arbitrary assignment of
  addresses to the macro names it uses (the spelling \<^verbatim>\<open>CAPP1188_...\<close> of the
  recalibration register is the source's).
\<close>

record reg_map =
  CAP1188_MAIN_CONTROL_REG :: byte
  CAP1188_SENSOR_INPUT_STATUS_REG :: byte
  CAP1188_AVERAGING_AND_SAMPLING_CONFIG_REG :: byte
  CAP1188_MULTIPLE_TOUCH_CONFIGURATION_REG :: byte
  CAPP1188_RECALIBRATION_CONFIGURATION_REG :: byte
  CAP1188_SENSOR_INPUT_1_THRESHOLD_REG :: byte
  CAP1188_SENSOR_INPUT_2_THRESHOLD_REG :: byte
  CAP1188_SENSOR_INPUT_3_THRESHOLD_REG :: byte
  CAP1188_SENSOR_INPUT_4_THRESHOLD_REG :: byte
  CAP1188_SENSOR_INPUT_5_THRESHOLD_REG :: byte
  CAP1188_SENSOR_INPUT_6_THRESHOLD_REG :: byte
  CAP1188_SENSOR_INPUT_7_THRESHOLD_REG :: byte
  CAP1188_SENSOR_INPUT_8_THRESHOLD_REG :: byte
  CAP1188_STANDBY_CONFIGURATION_REG :: byte
  CAP1188_SENSOR_INPUT_LED_LINKING_REG :: byte
  CAP1188_PRODUCT_ID_REG :: byte
  CAP1188_MANUFACTURER_ID_REG :: byte
  CAP1188_REVISION_REG :: byte

text \<open>The private fields of \<^verbatim>\<open>class CAP1188\<close> (the Device Handle).\<close>

record CAP1188 =
  i2c :: bool
  i2cAddress :: byte
  resetPin :: byte
  csPin :: byte

subsection \<open>The hardware the driver talks to\<close>

datatype level = LOW | HIGH

datatype pin_mode = INPUT | OUTPUT

text \<open>
  Each call of a GPIO, delay, SPI or I2C primitive is logged together with its outcome:
  \<^item> \<open>SpiTransfer data out size\<close> is \<^verbatim>\<open>SPI.transferBytes(data, out, size)\<close>;
    \<open>data\<close> is the buffer shifted out (\<open>None\<close> for \<^verbatim>\<open>NULL\<close>) and \<open>out\<close> the bytes
    captured into the receive buffer (\<open>None\<close> when that buffer is \<^verbatim>\<open>NULL\<close>);
  \<^item> \<open>I2cRead dev reg r\<close> is \<^verbatim>\<open>I2Cdev::readByte(dev, reg, &b)\<close>; \<open>r\<close> is the byte
    delivered, \<open>None\<close> when the transfer failed;
  \<^item> \<open>I2cWrite dev reg d ok\<close> is \<^verbatim>\<open>I2Cdev::writeByte(dev, reg, d)\<close> and the status
    it returned.
\<close>

datatype event =
    PinMode byte pin_mode
  | DigitalWrite byte level
  | Delay nat
  | SpiTransfer "byte list option" "byte list option" nat
  | I2cRead byte byte "byte option"
  | I2cWrite byte byte byte bool

text \<open>
  The state a member function runs in: the object itself (\<open>this\<close>) and a simulated chip.
  \<^item> \<open>regs\<close> is the chip's register file and \<open>pointer\<close> its SPI register pointer;
  \<^item> \<open>i2c_faults\<close> schedules the outcome of the coming I2C transfers (\<open>True\<close>: the
    transfer fails); once the schedule is used up every transfer succeeds;
  \<^item> \<open>uninit\<close> is the byte an uninitialised \<^verbatim>\<open>uint8_t\<close> local happens to hold;
  \<^item> \<open>trace\<close> is the log of the primitive calls made so far, oldest first.
\<close>

record state =
  this :: CAP1188
  regs :: "byte \<Rightarrow> byte"
  pointer :: byte
  i2c_faults :: "bool list"
  uninit :: byte
  trace :: "event list"

section \<open>External primitives\<close>

definition pinMode :: "byte \<Rightarrow> pin_mode \<Rightarrow> state \<Rightarrow> state" where
  "pinMode pin m s = s\<lparr>trace := trace s @ [PinMode pin m]\<rparr>"

definition digitalWrite :: "byte \<Rightarrow> level \<Rightarrow> state \<Rightarrow> state" where
  "digitalWrite pin l s = s\<lparr>trace := trace s @ [DigitalWrite pin l]\<rparr>"

definition delay :: "nat \<Rightarrow> state \<Rightarrow> state" where
  "delay ms s = s\<lparr>trace := trace s @ [Delay ms]\<rparr>"

text \<open>
  What the simulated chip does with the command bytes of one transfer: \<^verbatim>\<open>0x7D a\<close> sets
  the register pointer, \<^verbatim>\<open>0x7E d\<close> writes the pointed register; the reset command
  \<^verbatim>\<open>0x7A 0x7A\<close> and the read command \<^verbatim>\<open>0x7F\<close> leave the register file and the
  pointer as they are.
\<close>

definition chip_command :: "byte list \<Rightarrow> state \<Rightarrow> state" where
  "chip_command bs s =
     (case bs of
        [c, a] \<Rightarrow>
          if c = 0x7D then s\<lparr>pointer := a\<rparr>
          else if c = 0x7E then s\<lparr>regs := (regs s)(pointer s := a)\<rparr>
          else s
      | _ \<Rightarrow> s)"

text \<open>
  \<^verbatim>\<open>SPI.transferBytes(data, out, size)\<close>: shifts \<open>len\<close> bytes out and, when a receive
  buffer is given (\<open>capture\<close>), captures \<open>len\<close> bytes, which the chip answers from
  the pointed register. It returns nothing to the caller but the captured bytes.
\<close>

definition SPI_transferBytes ::
  "byte list option \<Rightarrow> bool \<Rightarrow> nat \<Rightarrow> state \<Rightarrow> byte list option \<times> state" where
  "SPI_transferBytes data capture len s =
     (let s1 = (case data of None \<Rightarrow> s | Some bs \<Rightarrow> chip_command (take len bs) s);
          rx = (if capture then Some (replicate len (regs s1 (pointer s1))) else None)
      in (rx, s1\<lparr>trace := trace s1 @ [SpiTransfer data rx len]\<rparr>))"

definition i2c_fails :: "state \<Rightarrow> bool" where
  "i2c_fails s = (case i2c_faults s of [] \<Rightarrow> False | f # _ \<Rightarrow> f)"

text \<open>
  \<^verbatim>\<open>I2Cdev::readByte(devAddr, regAddr, &data)\<close> returns the number of bytes read
  (\<open>-1\<close> on failure) and leaves the buffer untouched when the transfer fails. The
  second component of the result is the content of the buffer afterwards.
\<close>

definition I2Cdev_readByte :: "byte \<Rightarrow> byte \<Rightarrow> byte \<Rightarrow> state \<Rightarrow> (int \<times> byte) \<times> state" where
  "I2Cdev_readByte devAddr regAddr data s =
     (if i2c_fails s
      then ((- 1, data),
            s\<lparr>i2c_faults := tl (i2c_faults s),
              trace := trace s @ [I2cRead devAddr regAddr None]\<rparr>)
      else ((1, regs s regAddr),
            s\<lparr>i2c_faults := tl (i2c_faults s),
              trace := trace s @ [I2cRead devAddr regAddr (Some (regs s regAddr))]\<rparr>))"

text \<open>\<^verbatim>\<open>I2Cdev::writeByte(devAddr, regAddr, data)\<close> returns whether the write succeeded.\<close>

definition I2Cdev_writeByte :: "byte \<Rightarrow> byte \<Rightarrow> byte \<Rightarrow> state \<Rightarrow> bool \<times> state" where
  "I2Cdev_writeByte devAddr regAddr data s =
     (if i2c_fails s
      then (False,
            s\<lparr>i2c_faults := tl (i2c_faults s),
              trace := trace s @ [I2cWrite devAddr regAddr data False]\<rparr>)
      else (True,
            s\<lparr>regs := (regs s)(regAddr := data),
              i2c_faults := tl (i2c_faults s),
              trace := trace s @ [I2cWrite devAddr regAddr data True]\<rparr>))"

section \<open>The SPI command engine\<close>

text \<open>
  A member function is a function from the state before the call to its return value and
  the state after it. Return values of callees that the source drops are dropped here too.
\<close>

definition resetSPI :: "state \<Rightarrow> bool \<times> state" where
  "resetSPI s =
     (let buff = [0x7A, 0x7A];
          s = digitalWrite (csPin (this s)) LOW s;
          (_, s) = SPI_transferBytes (Some buff) False 2 s;
          s = digitalWrite (csPin (this s)) HIGH s
      in (True, s))"

definition setRegisterAddress :: "byte \<Rightarrow> state \<Rightarrow> bool \<times> state" where
  "setRegisterAddress regAddress s =
     (let buff = [0x7D, regAddress];
          s = digitalWrite (csPin (this s)) LOW s;
          (_, s) = SPI_transferBytes (Some buff) False 2 s;
          s = digitalWrite (csPin (this s)) HIGH s
      in (True, s))"

text \<open>
  \<^verbatim>\<open>readRegister\<close> sends \<^verbatim>\<open>0x7F\<close> and then captures one byte into the same
  variable, inside one chip-select frame.
\<close>

definition readRegister :: "state \<Rightarrow> byte \<times> state" where
  "readRegister s =
     (let buff = 0x7F;
          s = digitalWrite (csPin (this s)) LOW s;
          (_, s) = SPI_transferBytes (Some [buff]) False 1 s;
          (rx, s) = SPI_transferBytes None True 1 s;
          buff = (case rx of Some (b # _) \<Rightarrow> b | _ \<Rightarrow> buff);
          s = digitalWrite (csPin (this s)) HIGH s
      in (buff, s))"

definition writeRegister :: "byte \<Rightarrow> state \<Rightarrow> bool \<times> state" where
  "writeRegister data s =
     (let buff = [0x7E, data];
          s = digitalWrite (csPin (this s)) LOW s;
          (_, s) = SPI_transferBytes (Some buff) False 2 s;
          s = digitalWrite (csPin (this s)) HIGH s
      in (True, s))"

definition writeRegisterAtAddress :: "byte \<Rightarrow> byte \<Rightarrow> state \<Rightarrow> bool \<times> state" where
  "writeRegisterAtAddress regAddress data s =
     (let (_, s) = setRegisterAddress regAddress s;
          (_, s) = writeRegister data s
      in (True, s))"

text \<open>
  \<^verbatim>\<open>void readRegisterFromAddress(uint8_t regAddress, uint8_t* data)\<close>: the value
  returned here is the byte stored to \<^verbatim>\<open>*data\<close>.
\<close>

definition readRegisterFromAddress :: "byte \<Rightarrow> state \<Rightarrow> byte \<times> state" where
  "readRegisterFromAddress regAddress s =
     (let (_, s) = setRegisterAddress regAddress s;
          (data, s) = readRegister s
      in (data, s))"

section \<open>The register semantics layer\<close>

text \<open>
  Every operation branches on \<^verbatim>\<open>_i2c\<close> at each register access, as the source does.
  A local declared without initialiser starts as \<open>uninit s\<close>; the SPI branch always
  assigns it, the I2C branch assigns it when the transfer delivers a byte.
\<close>

definition getProductId :: "reg_map \<Rightarrow> state \<Rightarrow> byte \<times> state" where
  "getProductId R s =
     (let productId = uninit s;
          (productId, s) =
            (if \<not> i2c (this s)
             then readRegisterFromAddress (CAP1188_PRODUCT_ID_REG R) s
             else (let ((_, productId), s) = I2Cdev_readByte (i2cAddress (this s)) (CAP1188_PRODUCT_ID_REG R) productId s
                   in (productId, s)))
      in (productId, s))"

definition getManufacturerId :: "reg_map \<Rightarrow> state \<Rightarrow> byte \<times> state" where
  "getManufacturerId R s =
     (let manufacturerId = uninit s;
          (manufacturerId, s) =
            (if \<not> i2c (this s)
             then readRegisterFromAddress (CAP1188_MANUFACTURER_ID_REG R) s
             else (let ((_, manufacturerId), s) = I2Cdev_readByte (i2cAddress (this s)) (CAP1188_MANUFACTURER_ID_REG R) manufacturerId s
                   in (manufacturerId, s)))
      in (manufacturerId, s))"

definition getRevision :: "reg_map \<Rightarrow> state \<Rightarrow> byte \<times> state" where
  "getRevision R s =
     (let revision = uninit s;
          (revision, s) =
            (if \<not> i2c (this s)
             then readRegisterFromAddress (CAP1188_REVISION_REG R) s
             else (let ((_, revision), s) = I2Cdev_readByte (i2cAddress (this s)) (CAP1188_REVISION_REG R) revision s
                   in (revision, s)))
      in (revision, s))"

text \<open>
  \<^verbatim>\<open>setMultipleTouchConfiguration\<close>: the \<^verbatim>\<open>default\<close> branch of the switch returns
  before any register access.
\<close>

definition setMultipleTouchConfiguration :: "reg_map \<Rightarrow> bool \<Rightarrow> byte \<Rightarrow> state \<Rightarrow> bool \<times> state" where
  "setMultipleTouchConfiguration R multipleTouchCircuitryEnable numberOfSimultaneousTouches s =
     (let buff = (0 :: byte);
          sel = (if multipleTouchCircuitryEnable
                 then (if numberOfSimultaneousTouches = 1 then Some 128
                       else if numberOfSimultaneousTouches = 2 then Some 132
                       else if numberOfSimultaneousTouches = 3 then Some 136
                       else if numberOfSimultaneousTouches = 4 then Some 140
                       else None)
                 else Some buff)
      in case sel of
           None \<Rightarrow> (False, s)
         | Some buff \<Rightarrow>
             (let (_, s) =
                    (if \<not> i2c (this s)
                     then writeRegisterAtAddress (CAP1188_MULTIPLE_TOUCH_CONFIGURATION_REG R) buff s
                     else I2Cdev_writeByte (i2cAddress (this s)) (CAP1188_MULTIPLE_TOUCH_CONFIGURATION_REG R) buff s)
              in (True, s)))"

definition setSensorInputLEDLinking :: "reg_map \<Rightarrow> byte \<Rightarrow> state \<Rightarrow> bool \<times> state" where
  "setSensorInputLEDLinking R ledsToLink s =
     (let (_, s) =
            (if \<not> i2c (this s)
             then writeRegisterAtAddress (CAP1188_SENSOR_INPUT_LED_LINKING_REG R) ledsToLink s
             else I2Cdev_writeByte (i2cAddress (this s)) (CAP1188_SENSOR_INPUT_LED_LINKING_REG R) ledsToLink s)
      in (True, s))"

text \<open>
  \<^verbatim>\<open>getSensorInputs\<close>. In \<^verbatim>\<open>currentRegState & ~0x01\<close> both operands are promoted to
  \<^verbatim>\<open>int\<close>; the result lies in 0..254, so the assignment back to \<^verbatim>\<open>uint8_t\<close> keeps it
  and the expression is the 8-bit \<open>currentRegState AND NOT 1\<close>.
\<close>

definition getSensorInputs :: "reg_map \<Rightarrow> state \<Rightarrow> byte \<times> state" where
  "getSensorInputs R s =
     (let keys = uninit s;
          (keys, s) =
            (if \<not> i2c (this s)
             then readRegisterFromAddress (CAP1188_SENSOR_INPUT_STATUS_REG R) s
             else (let ((_, keys), s) = I2Cdev_readByte (i2cAddress (this s)) (CAP1188_SENSOR_INPUT_STATUS_REG R) keys s
                   in (keys, s)))
      in if keys \<noteq> 0
         then (let currentRegState = uninit s;
                   (currentRegState, s) =
                     (if \<not> i2c (this s)
                      then readRegisterFromAddress (CAP1188_MAIN_CONTROL_REG R) s
                      else (let ((_, currentRegState), s) = I2Cdev_readByte (i2cAddress (this s)) (CAP1188_MAIN_CONTROL_REG R) currentRegState s
                            in (currentRegState, s)));
                   currentRegState = currentRegState AND NOT 1;
                   (_, s) =
                     (if \<not> i2c (this s)
                      then writeRegisterAtAddress (CAP1188_MAIN_CONTROL_REG R) currentRegState s
                      else I2Cdev_writeByte (i2cAddress (this s)) (CAP1188_MAIN_CONTROL_REG R) currentRegState s)
               in (keys, s))
         else (keys, s))"

text \<open>
  In \<^verbatim>\<open>averageSum << 7 | samplesPerMeasurement << 4 | samplingTime << 2 | cycleTime\<close> the
  operands are promoted to \<^verbatim>\<open>int\<close> before they are shifted, and the assignment to the
  \<^verbatim>\<open>uint8_t reg\<close> keeps the low eight bits of the result.
\<close>

definition setStandbyConfiguration ::
  "reg_map \<Rightarrow> byte \<Rightarrow> byte \<Rightarrow> byte \<Rightarrow> byte \<Rightarrow> state \<Rightarrow> bool \<times> state" where
  "setStandbyConfiguration R averageSum samplesPerMeasurement samplingTime cycleTime s =
     (let reg = (word_of_int (push_bit 7 (uint averageSum) OR push_bit 4 (uint samplesPerMeasurement)
                              OR push_bit 2 (uint samplingTime) OR uint cycleTime) :: byte);
          (_, s) =
            (if \<not> i2c (this s)
             then writeRegisterAtAddress (CAP1188_STANDBY_CONFIGURATION_REG R) reg s
             else I2Cdev_writeByte (i2cAddress (this s)) (CAP1188_STANDBY_CONFIGURATION_REG R) reg s)
      in (True, s))"

text \<open>
  The four out-parameters of \<^verbatim>\<open>getStandbyConfiguration\<close> are returned after the status.
  Right shifts and masks of a promoted \<^verbatim>\<open>uint8_t\<close> stay within eight bits.
\<close>

definition getStandbyConfiguration ::
  "reg_map \<Rightarrow> state \<Rightarrow> (bool \<times> byte \<times> byte \<times> byte \<times> byte) \<times> state" where
  "getStandbyConfiguration R s =
     (let reg = uninit s;
          (reg, s) =
            (if \<not> i2c (this s)
             then readRegisterFromAddress (CAP1188_STANDBY_CONFIGURATION_REG R) s
             else (let ((_, reg), s) = I2Cdev_readByte (i2cAddress (this s)) (CAP1188_STANDBY_CONFIGURATION_REG R) reg s
                   in (reg, s)));
          averageSum = drop_bit 7 reg;
          samplesPerMeasurement = drop_bit 4 reg AND 0x07;
          samplingTime = drop_bit 2 reg AND 0x03;
          cycleTime = reg AND 0x03
      in ((True, averageSum, samplesPerMeasurement, samplingTime, cycleTime), s))"

definition setAveragingAndSamplingConfig ::
  "reg_map \<Rightarrow> byte \<Rightarrow> byte \<Rightarrow> byte \<Rightarrow> state \<Rightarrow> bool \<times> state" where
  "setAveragingAndSamplingConfig R samplesPerMeasurement samplingTime cycleTime s =
     (let reg = (word_of_int (push_bit 4 (uint samplesPerMeasurement)
                              OR push_bit 2 (uint samplingTime) OR uint cycleTime) :: byte);
          (_, s) =
            (if \<not> i2c (this s)
             then writeRegisterAtAddress (CAP1188_AVERAGING_AND_SAMPLING_CONFIG_REG R) reg s
             else I2Cdev_writeByte (i2cAddress (this s)) (CAP1188_AVERAGING_AND_SAMPLING_CONFIG_REG R) reg s)
      in (True, s))"

definition getAveragingAndSamplingConfig ::
  "reg_map \<Rightarrow> state \<Rightarrow> (bool \<times> byte \<times> byte \<times> byte) \<times> state" where
  "getAveragingAndSamplingConfig R s =
     (let reg = uninit s;
          (reg, s) =
            (if \<not> i2c (this s)
             then readRegisterFromAddress (CAP1188_AVERAGING_AND_SAMPLING_CONFIG_REG R) s
             else (let ((_, reg), s) = I2Cdev_readByte (i2cAddress (this s)) (CAP1188_AVERAGING_AND_SAMPLING_CONFIG_REG R) reg s
                   in (reg, s)));
          samplesPerMeasurement = drop_bit 4 reg AND 0x07;
          samplingTime = drop_bit 2 reg AND 0x03;
          cycleTime = reg AND 0x03
      in ((True, samplesPerMeasurement, samplingTime, cycleTime), s))"

text \<open>
  \<^verbatim>\<open>setSensorInputThreshold\<close>: a switch over the button number with one case per
  channel; the \<^verbatim>\<open>default\<close> case returns \<^verbatim>\<open>false\<close> without touching the hardware.
\<close>

definition setSensorInputThreshold :: "reg_map \<Rightarrow> byte \<Rightarrow> byte \<Rightarrow> state \<Rightarrow> bool \<times> state" where
  "setSensorInputThreshold R buttonNumber threshold s =
     (
      if buttonNumber = 1
      then (let (_, s) =
                  (if \<not> i2c (this s)
                   then writeRegisterAtAddress (CAP1188_SENSOR_INPUT_1_THRESHOLD_REG R) threshold s
                   else I2Cdev_writeByte (i2cAddress (this s)) (CAP1188_SENSOR_INPUT_1_THRESHOLD_REG R) threshold s)
            in (True, s))
      else if buttonNumber = 2
      then (let (_, s) =
                  (if \<not> i2c (this s)
                   then writeRegisterAtAddress (CAP1188_SENSOR_INPUT_2_THRESHOLD_REG R) threshold s
                   else I2Cdev_writeByte (i2cAddress (this s)) (CAP1188_SENSOR_INPUT_2_THRESHOLD_REG R) threshold s)
            in (True, s))
      else if buttonNumber = 3
      then (let (_, s) =
                  (if \<not> i2c (this s)
                   then writeRegisterAtAddress (CAP1188_SENSOR_INPUT_3_THRESHOLD_REG R) threshold s
                   else I2Cdev_writeByte (i2cAddress (this s)) (CAP1188_SENSOR_INPUT_3_THRESHOLD_REG R) threshold s)
            in (True, s))
      else if buttonNumber = 4
      then (let (_, s) =
                  (if \<not> i2c (this s)
                   then writeRegisterAtAddress (CAP1188_SENSOR_INPUT_4_THRESHOLD_REG R) threshold s
                   else I2Cdev_writeByte (i2cAddress (this s)) (CAP1188_SENSOR_INPUT_4_THRESHOLD_REG R) threshold s)
            in (True, s))
      else if buttonNumber = 5
      then (let (_, s) =
                  (if \<not> i2c (this s)
                   then writeRegisterAtAddress (CAP1188_SENSOR_INPUT_5_THRESHOLD_REG R) threshold s
                   else I2Cdev_writeByte (i2cAddress (this s)) (CAP1188_SENSOR_INPUT_5_THRESHOLD_REG R) threshold s)
            in (True, s))
      else if buttonNumber = 6
      then (let (_, s) =
                  (if \<not> i2c (this s)
                   then writeRegisterAtAddress (CAP1188_SENSOR_INPUT_6_THRESHOLD_REG R) threshold s
                   else I2Cdev_writeByte (i2cAddress (this s)) (CAP1188_SENSOR_INPUT_6_THRESHOLD_REG R) threshold s)
            in (True, s))
      else if buttonNumber = 7
      then (let (_, s) =
                  (if \<not> i2c (this s)
                   then writeRegisterAtAddress (CAP1188_SENSOR_INPUT_7_THRESHOLD_REG R) threshold s
                   else I2Cdev_writeByte (i2cAddress (this s)) (CAP1188_SENSOR_INPUT_7_THRESHOLD_REG R) threshold s)
            in (True, s))
      else if buttonNumber = 8
      then (let (_, s) =
                  (if \<not> i2c (this s)
                   then writeRegisterAtAddress (CAP1188_SENSOR_INPUT_8_THRESHOLD_REG R) threshold s
                   else I2Cdev_writeByte (i2cAddress (this s)) (CAP1188_SENSOR_INPUT_8_THRESHOLD_REG R) threshold s)
            in (True, s))
      else (False, s))"

text \<open>
  \<^verbatim>\<open>setSensorInputThresholdAll\<close> ends in \<^verbatim>\<open>return 0\<close>, which is \<^verbatim>\<open>false\<close> in its
  return type \<^verbatim>\<open>bool\<close>.
\<close>

definition setSensorInputThresholdAll :: "reg_map \<Rightarrow> byte \<Rightarrow> state \<Rightarrow> bool \<times> state" where
  "setSensorInputThresholdAll R threshold s =
     (let reg = uninit s;
          (reg, s) =
            (if \<not> i2c (this s)
             then readRegisterFromAddress (CAPP1188_RECALIBRATION_CONFIGURATION_REG R) s
             else (let ((_, reg), s) = I2Cdev_readByte (i2cAddress (this s)) (CAPP1188_RECALIBRATION_CONFIGURATION_REG R) reg s
                   in (reg, s)));
          reg = reg AND 0x7F;
          (_, s) =
            (if \<not> i2c (this s)
             then writeRegisterAtAddress (CAPP1188_RECALIBRATION_CONFIGURATION_REG R) reg s
             else I2Cdev_writeByte (i2cAddress (this s)) (CAPP1188_RECALIBRATION_CONFIGURATION_REG R) reg s);
          (_, s) =
            (if \<not> i2c (this s)
             then writeRegisterAtAddress (CAP1188_SENSOR_INPUT_1_THRESHOLD_REG R) threshold s
             else I2Cdev_writeByte (i2cAddress (this s)) (CAP1188_SENSOR_INPUT_1_THRESHOLD_REG R) threshold s);
          (reg, s) =
            (if \<not> i2c (this s)
             then readRegisterFromAddress (CAPP1188_RECALIBRATION_CONFIGURATION_REG R) s
             else (let ((_, reg), s) = I2Cdev_readByte (i2cAddress (this s)) (CAPP1188_RECALIBRATION_CONFIGURATION_REG R) reg s
                   in (reg, s)));
          reg = reg OR 0x80;
          (_, s) =
            (if \<not> i2c (this s)
             then writeRegisterAtAddress (CAPP1188_RECALIBRATION_CONFIGURATION_REG R) reg s
             else I2Cdev_writeByte (i2cAddress (this s)) (CAPP1188_RECALIBRATION_CONFIGURATION_REG R) reg s)
      in (False, s))"

text \<open>
  \<^verbatim>\<open>getSensorInputThreshold\<close>: the \<^verbatim>\<open>default\<close> case returns 0, the value the source
  documents as its error result.
\<close>

definition getSensorInputThreshold :: "reg_map \<Rightarrow> byte \<Rightarrow> state \<Rightarrow> byte \<times> state" where
  "getSensorInputThreshold R buttonNumber s =
     (let reg = uninit s in
      if buttonNumber = 1
      then (if \<not> i2c (this s)
            then readRegisterFromAddress (CAP1188_SENSOR_INPUT_1_THRESHOLD_REG R) s
            else (let ((_, reg), s) = I2Cdev_readByte (i2cAddress (this s)) (CAP1188_SENSOR_INPUT_1_THRESHOLD_REG R) reg s
                  in (reg, s)))
      else if buttonNumber = 2
      then (if \<not> i2c (this s)
            then readRegisterFromAddress (CAP1188_SENSOR_INPUT_2_THRESHOLD_REG R) s
            else (let ((_, reg), s) = I2Cdev_readByte (i2cAddress (this s)) (CAP1188_SENSOR_INPUT_2_THRESHOLD_REG R) reg s
                  in (reg, s)))
      else if buttonNumber = 3
      then (if \<not> i2c (this s)
            then readRegisterFromAddress (CAP1188_SENSOR_INPUT_3_THRESHOLD_REG R) s
            else (let ((_, reg), s) = I2Cdev_readByte (i2cAddress (this s)) (CAP1188_SENSOR_INPUT_3_THRESHOLD_REG R) reg s
                  in (reg, s)))
      else if buttonNumber = 4
      then (if \<not> i2c (this s)
            then readRegisterFromAddress (CAP1188_SENSOR_INPUT_4_THRESHOLD_REG R) s
            else (let ((_, reg), s) = I2Cdev_readByte (i2cAddress (this s)) (CAP1188_SENSOR_INPUT_4_THRESHOLD_REG R) reg s
                  in (reg, s)))
      else if buttonNumber = 5
      then (if \<not> i2c (this s)
            then readRegisterFromAddress (CAP1188_SENSOR_INPUT_5_THRESHOLD_REG R) s
            else (let ((_, reg), s) = I2Cdev_readByte (i2cAddress (this s)) (CAP1188_SENSOR_INPUT_5_THRESHOLD_REG R) reg s
                  in (reg, s)))
      else if buttonNumber = 6
      then (if \<not> i2c (this s)
            then readRegisterFromAddress (CAP1188_SENSOR_INPUT_6_THRESHOLD_REG R) s
            else (let ((_, reg), s) = I2Cdev_readByte (i2cAddress (this s)) (CAP1188_SENSOR_INPUT_6_THRESHOLD_REG R) reg s
                  in (reg, s)))
      else if buttonNumber = 7
      then (if \<not> i2c (this s)
            then readRegisterFromAddress (CAP1188_SENSOR_INPUT_7_THRESHOLD_REG R) s
            else (let ((_, reg), s) = I2Cdev_readByte (i2cAddress (this s)) (CAP1188_SENSOR_INPUT_7_THRESHOLD_REG R) reg s
                  in (reg, s)))
      else if buttonNumber = 8
      then (if \<not> i2c (this s)
            then readRegisterFromAddress (CAP1188_SENSOR_INPUT_8_THRESHOLD_REG R) s
            else (let ((_, reg), s) = I2Cdev_readByte (i2cAddress (this s)) (CAP1188_SENSOR_INPUT_8_THRESHOLD_REG R) reg s
                  in (reg, s)))
      else (0, s))"

section \<open>Initialisation\<close>

text \<open>
  The literal arguments of \<^verbatim>\<open>setMultipleTouchConfiguration(0, 0)\<close> are \<^verbatim>\<open>false\<close> and 0.
\<close>

definition initI2C :: "reg_map \<Rightarrow> byte \<Rightarrow> byte \<Rightarrow> state \<Rightarrow> state" where
  "initI2C R address resetPin' s =
     (let s = s\<lparr>this := (this s)\<lparr>resetPin := resetPin'\<rparr>\<rparr>;
          s = s\<lparr>this := (this s)\<lparr>i2cAddress := address\<rparr>\<rparr>;
          s = s\<lparr>this := (this s)\<lparr>i2c := True\<rparr>\<rparr>;
          s = pinMode (resetPin (this s)) OUTPUT s;
          s = digitalWrite (resetPin (this s)) HIGH s;
          s = delay 10 s;
          s = digitalWrite (resetPin (this s)) LOW s;
          (_, s) = setMultipleTouchConfiguration R False 0 s;
          (_, s) = setSensorInputLEDLinking R 0b11111111 s
      in s)"

definition initSPI :: "reg_map \<Rightarrow> byte \<Rightarrow> byte \<Rightarrow> state \<Rightarrow> state" where
  "initSPI R csPin' resetPin' s =
     (let s = s\<lparr>this := (this s)\<lparr>resetPin := resetPin'\<rparr>\<rparr>;
          s = s\<lparr>this := (this s)\<lparr>csPin := csPin'\<rparr>\<rparr>;
          s = s\<lparr>this := (this s)\<lparr>i2c := False\<rparr>\<rparr>;
          s = pinMode (resetPin (this s)) OUTPUT s;
          s = pinMode (csPin (this s)) OUTPUT s;
          s = digitalWrite (resetPin (this s)) HIGH s;
          s = delay 10 s;
          s = digitalWrite (resetPin (this s)) LOW s;
          (_, s) = resetSPI s;
          (_, s) = setMultipleTouchConfiguration R False 0 s;
          (_, s) = setSensorInputLEDLinking R 0b11111111 s
      in s)"

section \<open>Vocabulary of the properties\<close>

text \<open>
  The I2C transfers of a run are reliable when no coming transfer is scheduled to fail.
  SPI transfers report nothing and cannot fail, so an SPI-bound handle is always reliable.
\<close>

definition reliable :: "state \<Rightarrow> bool" where
  "reliable s = (i2c (this s) \<longrightarrow> True \<notin> set (i2c_faults s))"

text \<open>
  The events of one register access on the transport of handle \<open>h\<close>: a read of register
  \<open>a\<close> that delivers \<open>b\<close>, and a write of \<open>d\<close> to register \<open>a\<close> (with the status \<open>ok\<close> of
  the I2C primitive; the SPI path has no status). On SPI an access is two chip-select
  frames, on I2C one call of the byte-transfer primitive.
\<close>

definition register_read_events :: "CAP1188 \<Rightarrow> byte \<Rightarrow> byte \<Rightarrow> event list" where
  "register_read_events h a b =
     (if i2c h then [I2cRead (i2cAddress h) a (Some b)]
      else [DigitalWrite (csPin h) LOW, SpiTransfer (Some [0x7D, a]) None 2, DigitalWrite (csPin h) HIGH,
            DigitalWrite (csPin h) LOW, SpiTransfer (Some [0x7F]) None 1, SpiTransfer None (Some [b]) 1,
            DigitalWrite (csPin h) HIGH])"

definition register_write_events :: "CAP1188 \<Rightarrow> byte \<Rightarrow> byte \<Rightarrow> bool \<Rightarrow> event list" where
  "register_write_events h a d ok =
     (if i2c h then [I2cWrite (i2cAddress h) a d ok]
      else [DigitalWrite (csPin h) LOW, SpiTransfer (Some [0x7D, a]) None 2, DigitalWrite (csPin h) HIGH,
            DigitalWrite (csPin h) LOW, SpiTransfer (Some [0x7E, d]) None 2, DigitalWrite (csPin h) HIGH])"

text \<open>
  A call that started in \<open>s\<close> and ended with result \<open>r\<close> reported success after exactly
  one write of \<open>d\<close> to register \<open>a\<close>: the log grew by the events of that write and by
  nothing else, and the register file took the value unless the I2C transfer failed.
\<close>

definition one_register_write :: "bool \<times> state \<Rightarrow> state \<Rightarrow> byte \<Rightarrow> byte \<Rightarrow> bool" where
  "one_register_write r s a d =
     (fst r = True
      \<and> trace (snd r) = trace s @ register_write_events (this s) a d (\<not> i2c_fails s)
      \<and> regs (snd r) = (if i2c (this s) \<and> i2c_fails s then regs s else (regs s)(a := d)))"

subsection \<open>Concrete inputs\<close>

text \<open>
  A register map with the addresses of the CAP1188 data sheet (\<^verbatim>\<open>CAP1188.h\<close> names
  \<^verbatim>\<open>0x30-0x37\<close> for the thresholds and \<^verbatim>\<open>0x41\<close> for the standby configuration), and three
  boards: an SPI-bound one whose status register reads \<^verbatim>\<open>0x05\<close>, an I2C-bound one with
  an all-zero register file, and the same I2C board with a bus whose next transfer fails.
\<close>

definition example_map :: reg_map where
  "example_map =
     \<lparr>CAP1188_MAIN_CONTROL_REG = 0x00,
      CAP1188_SENSOR_INPUT_STATUS_REG = 0x03,
      CAP1188_AVERAGING_AND_SAMPLING_CONFIG_REG = 0x24,
      CAP1188_MULTIPLE_TOUCH_CONFIGURATION_REG = 0x2A,
      CAPP1188_RECALIBRATION_CONFIGURATION_REG = 0x2F,
      CAP1188_SENSOR_INPUT_1_THRESHOLD_REG = 0x30,
      CAP1188_SENSOR_INPUT_2_THRESHOLD_REG = 0x31,
      CAP1188_SENSOR_INPUT_3_THRESHOLD_REG = 0x32,
      CAP1188_SENSOR_INPUT_4_THRESHOLD_REG = 0x33,
      CAP1188_SENSOR_INPUT_5_THRESHOLD_REG = 0x34,
      CAP1188_SENSOR_INPUT_6_THRESHOLD_REG = 0x35,
      CAP1188_SENSOR_INPUT_7_THRESHOLD_REG = 0x36,
      CAP1188_SENSOR_INPUT_8_THRESHOLD_REG = 0x37,
      CAP1188_STANDBY_CONFIGURATION_REG = 0x41,
      CAP1188_SENSOR_INPUT_LED_LINKING_REG = 0x72,
      CAP1188_PRODUCT_ID_REG = 0xFD,
      CAP1188_MANUFACTURER_ID_REG = 0xFE,
      CAP1188_REVISION_REG = 0xFF\<rparr>"

definition spi_board :: state where
  "spi_board =
     \<lparr>this = \<lparr>i2c = False, i2cAddress = 0, resetPin = 4, csPin = 5\<rparr>,
      regs = (\<lambda>_. 0)(0x03 := 0x05, 0x00 := 0x81),
      pointer = 0, i2c_faults = [], uninit = 0xAA, trace = []\<rparr>"

definition i2c_board :: state where
  "i2c_board =
     \<lparr>this = \<lparr>i2c = True, i2cAddress = 0x29, resetPin = 4, csPin = 0\<rparr>,
      regs = (\<lambda>_. 0),
      pointer = 0, i2c_faults = [], uninit = 0xAA, trace = []\<rparr>"

definition i2c_board_down :: state where
  "i2c_board_down = i2c_board\<lparr>i2c_faults := [True]\<rparr>"

section \<open>What one call of the SPI engine does\<close>

text \<open>
  Each primitive of the engine, and each of the two composites, as one state update:
  the effect on the simulated chip and the events appended to the log.
\<close>

lemma setRegisterAddress_eq:
  "setRegisterAddress a s =
     (True, s\<lparr>pointer := a,
              trace := trace s @ [DigitalWrite (csPin (this s)) LOW,
                                  SpiTransfer (Some [0x7D, a]) None 2,
                                  DigitalWrite (csPin (this s)) HIGH]\<rparr>)"
  by (simp add: setRegisterAddress_def digitalWrite_def SPI_transferBytes_def chip_command_def Let_def)

lemma writeRegister_eq:
  "writeRegister d s =
     (True, s\<lparr>regs := (regs s)(pointer s := d),
              trace := trace s @ [DigitalWrite (csPin (this s)) LOW,
                                  SpiTransfer (Some [0x7E, d]) None 2,
                                  DigitalWrite (csPin (this s)) HIGH]\<rparr>)"
  by (simp add: writeRegister_def digitalWrite_def SPI_transferBytes_def chip_command_def Let_def)

lemma readRegister_eq:
  "readRegister s =
     (regs s (pointer s),
      s\<lparr>trace := trace s @ [DigitalWrite (csPin (this s)) LOW,
                            SpiTransfer (Some [0x7F]) None 1,
                            SpiTransfer None (Some [regs s (pointer s)]) 1,
                            DigitalWrite (csPin (this s)) HIGH]\<rparr>)"
  by (simp add: readRegister_def digitalWrite_def SPI_transferBytes_def chip_command_def Let_def)

lemma resetSPI_eq:
  "resetSPI s =
     (True, s\<lparr>trace := trace s @ [DigitalWrite (csPin (this s)) LOW,
                                  SpiTransfer (Some [0x7A, 0x7A]) None 2,
                                  DigitalWrite (csPin (this s)) HIGH]\<rparr>)"
  by (simp add: resetSPI_def digitalWrite_def SPI_transferBytes_def chip_command_def Let_def)

lemma writeRegisterAtAddress_eq:
  "writeRegisterAtAddress a d s =
     (True, s\<lparr>regs := (regs s)(a := d), pointer := a,
              trace := trace s @ [DigitalWrite (csPin (this s)) LOW,
                                  SpiTransfer (Some [0x7D, a]) None 2,
                                  DigitalWrite (csPin (this s)) HIGH,
                                  DigitalWrite (csPin (this s)) LOW,
                                  SpiTransfer (Some [0x7E, d]) None 2,
                                  DigitalWrite (csPin (this s)) HIGH]\<rparr>)"
  by (simp add: writeRegisterAtAddress_def setRegisterAddress_eq writeRegister_eq)

lemma readRegisterFromAddress_eq:
  "readRegisterFromAddress a s =
     (regs s a,
      s\<lparr>pointer := a,
        trace := trace s @ [DigitalWrite (csPin (this s)) LOW,
                            SpiTransfer (Some [0x7D, a]) None 2,
                            DigitalWrite (csPin (this s)) HIGH,
                            DigitalWrite (csPin (this s)) LOW,
                            SpiTransfer (Some [0x7F]) None 1,
                            SpiTransfer None (Some [regs s a]) 1,
                            DigitalWrite (csPin (this s)) HIGH]\<rparr>)"
  by (simp add: readRegisterFromAddress_def setRegisterAddress_eq readRegister_eq)

section \<open>Wire protocol of the SPI composites\<close>

text \<open>
  C2. For every register address, \<^verbatim>\<open>readRegisterFromAddress\<close> appends exactly two
  chip-select frames to the log: chip-select low, the two bytes \<open>0x7D, addr\<close> sent with
  nothing captured, chip-select high; then chip-select low, the single byte \<open>0x7F\<close> sent,
  exactly one byte captured, chip-select high. The captured byte is the value handed
  back (and it is the content of register \<open>addr\<close> of the simulated chip).
\<close>

theorem readRegisterFromAddress_frames:
  "trace (snd (readRegisterFromAddress addr s)) =
     trace s @ [DigitalWrite (csPin (this s)) LOW,
                SpiTransfer (Some [0x7D, addr]) None 2,
                DigitalWrite (csPin (this s)) HIGH,
                DigitalWrite (csPin (this s)) LOW,
                SpiTransfer (Some [0x7F]) None 1,
                SpiTransfer None (Some [fst (readRegisterFromAddress addr s)]) 1,
                DigitalWrite (csPin (this s)) HIGH]
   \<and> fst (readRegisterFromAddress addr s) = regs s addr"
  by (simp add: readRegisterFromAddress_eq)

text \<open>
  C3. For every register address and data byte, \<^verbatim>\<open>writeRegisterAtAddress\<close> appends
  exactly the frame of \<open>0x7D, addr\<close> and then the frame of \<open>0x7E, d\<close> to the log, each
  with its own chip-select low before and chip-select high after, and captures no byte
  in either transfer.
\<close>

theorem writeRegisterAtAddress_frames:
  "trace (snd (writeRegisterAtAddress addr d s)) =
     trace s @ [DigitalWrite (csPin (this s)) LOW,
                SpiTransfer (Some [0x7D, addr]) None 2,
                DigitalWrite (csPin (this s)) HIGH,
                DigitalWrite (csPin (this s)) LOW,
                SpiTransfer (Some [0x7E, d]) None 2,
                DigitalWrite (csPin (this s)) HIGH]"
  by (simp add: writeRegisterAtAddress_eq)

section \<open>Reading the sensor inputs and clearing the interrupt\<close>

lemma no_fault_tl: "True \<notin> set xs \<Longrightarrow> True \<notin> set (tl xs)"
  by (cases xs) auto

lemma no_fault_case: "True \<notin> set xs \<Longrightarrow> (case xs of [] \<Rightarrow> False | f # _ \<Rightarrow> f) = False"
  by (cases xs) auto

text \<open>Clearing bit 0 by the mask \<^verbatim>\<open>~0x01\<close> leaves every other bit as it was.\<close>

lemma unset_bit0_byte: "(m :: byte) AND - 2 = unset_bit 0 m"
  by (rule bit_word_eqI) (auto simp: bit_simps)

lemma getSensorInputs_spi:
  assumes "\<not> i2c (this s)"
  shows "fst (getSensorInputs R s) = regs s (CAP1188_SENSOR_INPUT_STATUS_REG R)"
    and "trace (snd (getSensorInputs R s)) =
       trace s @ register_read_events (this s) (CAP1188_SENSOR_INPUT_STATUS_REG R)
                   (regs s (CAP1188_SENSOR_INPUT_STATUS_REG R))
         @ (if regs s (CAP1188_SENSOR_INPUT_STATUS_REG R) = 0 then []
            else register_read_events (this s) (CAP1188_MAIN_CONTROL_REG R)
                   (regs s (CAP1188_MAIN_CONTROL_REG R))
               @ register_write_events (this s) (CAP1188_MAIN_CONTROL_REG R)
                   (unset_bit 0 (regs s (CAP1188_MAIN_CONTROL_REG R))) True)"
  using assms
  by (simp_all add: getSensorInputs_def readRegisterFromAddress_eq writeRegisterAtAddress_eq
        register_read_events_def register_write_events_def unset_bit0_byte Let_def)

lemma getSensorInputs_i2c:
  assumes "i2c (this s)" "True \<notin> set (i2c_faults s)"
  shows "fst (getSensorInputs R s) = regs s (CAP1188_SENSOR_INPUT_STATUS_REG R)"
    and "trace (snd (getSensorInputs R s)) =
       trace s @ register_read_events (this s) (CAP1188_SENSOR_INPUT_STATUS_REG R)
                   (regs s (CAP1188_SENSOR_INPUT_STATUS_REG R))
         @ (if regs s (CAP1188_SENSOR_INPUT_STATUS_REG R) = 0 then []
            else register_read_events (this s) (CAP1188_MAIN_CONTROL_REG R)
                   (regs s (CAP1188_MAIN_CONTROL_REG R))
               @ register_write_events (this s) (CAP1188_MAIN_CONTROL_REG R)
                   (unset_bit 0 (regs s (CAP1188_MAIN_CONTROL_REG R))) True)"
  using assms
  by (simp_all add: getSensorInputs_def I2Cdev_readByte_def I2Cdev_writeByte_def
        register_read_events_def register_write_events_def unset_bit0_byte Let_def
        no_fault_tl no_fault_case i2c_fails_def)

text \<open>
  C1. In every state with reliable transfers, \<^verbatim>\<open>getSensorInputs\<close> returns the byte
  read from the sensor-input-status register, and that read is the first access it
  makes. When the byte is non-zero, exactly one read of the main-control register and
  then exactly one write to the main-control register follow; the value written is the
  byte just read with bit 0 cleared and every other bit unchanged. When the byte is zero,
  nothing follows the first read.
\<close>

theorem getSensorInputs_sequence:
  assumes "reliable s"
  shows "fst (getSensorInputs R s) = regs s (CAP1188_SENSOR_INPUT_STATUS_REG R)
    \<and> trace (snd (getSensorInputs R s)) =
        trace s @ register_read_events (this s) (CAP1188_SENSOR_INPUT_STATUS_REG R)
                    (fst (getSensorInputs R s))
          @ (if fst (getSensorInputs R s) = 0 then []
             else register_read_events (this s) (CAP1188_MAIN_CONTROL_REG R)
                    (regs s (CAP1188_MAIN_CONTROL_REG R))
                @ register_write_events (this s) (CAP1188_MAIN_CONTROL_REG R)
                    (unset_bit 0 (regs s (CAP1188_MAIN_CONTROL_REG R))) True)"
proof (cases "i2c (this s)")
  case True
  with assms have "True \<notin> set (i2c_faults s)"
    by (simp add: reliable_def)
  with True show ?thesis
    by (simp only: getSensorInputs_i2c simp_thms)
next
  case False
  then show ?thesis
    by (simp only: getSensorInputs_spi simp_thms)
qed

theorem getSensorInputs_sequence_witness:
  "reliable spi_board
   \<and> fst (getSensorInputs example_map spi_board) = 0x05
   \<and> trace (snd (getSensorInputs example_map spi_board)) =
       [DigitalWrite 5 LOW, SpiTransfer (Some [0x7D, 0x03]) None 2, DigitalWrite 5 HIGH,
        DigitalWrite 5 LOW, SpiTransfer (Some [0x7F]) None 1, SpiTransfer None (Some [0x05]) 1,
        DigitalWrite 5 HIGH,
        DigitalWrite 5 LOW, SpiTransfer (Some [0x7D, 0x00]) None 2, DigitalWrite 5 HIGH,
        DigitalWrite 5 LOW, SpiTransfer (Some [0x7F]) None 1, SpiTransfer None (Some [0x81]) 1,
        DigitalWrite 5 HIGH,
        DigitalWrite 5 LOW, SpiTransfer (Some [0x7D, 0x00]) None 2, DigitalWrite 5 HIGH,
        DigitalWrite 5 LOW, SpiTransfer (Some [0x7E, 0x80]) None 2, DigitalWrite 5 HIGH]
   \<and> reliable i2c_board
   \<and> fst (getSensorInputs example_map i2c_board) = 0x00
   \<and> trace (snd (getSensorInputs example_map i2c_board)) = [I2cRead 0x29 0x03 (Some 0x00)]"
proof -
  have spi: "reliable spi_board" and bus: "reliable i2c_board"
    by (simp_all add: reliable_def spi_board_def i2c_board_def)
  have clear: "unset_bit 0 (0x81 :: byte) = 0x80"
    by (simp flip: unset_bit0_byte)
  show ?thesis
    using getSensorInputs_sequence [OF spi, of example_map]
          getSensorInputs_sequence [OF bus, of example_map] spi bus
    by (simp add: spi_board_def i2c_board_def example_map_def clear
          register_read_events_def register_write_events_def)
qed

section \<open>Multiple-touch configuration\<close>

lemma setMultipleTouchConfiguration_off:
  "one_register_write (setMultipleTouchConfiguration R False n s) s
     (CAP1188_MULTIPLE_TOUCH_CONFIGURATION_REG R) 0x00"
  by (simp add: one_register_write_def setMultipleTouchConfiguration_def register_write_events_def
        writeRegisterAtAddress_eq I2Cdev_writeByte_def Let_def)

lemma setMultipleTouchConfiguration_on:
  "one_register_write (setMultipleTouchConfiguration R True 1 s) s
     (CAP1188_MULTIPLE_TOUCH_CONFIGURATION_REG R) 128"
  "one_register_write (setMultipleTouchConfiguration R True 2 s) s
     (CAP1188_MULTIPLE_TOUCH_CONFIGURATION_REG R) 132"
  "one_register_write (setMultipleTouchConfiguration R True 3 s) s
     (CAP1188_MULTIPLE_TOUCH_CONFIGURATION_REG R) 136"
  "one_register_write (setMultipleTouchConfiguration R True 4 s) s
     (CAP1188_MULTIPLE_TOUCH_CONFIGURATION_REG R) 140"
  by (simp_all add: one_register_write_def setMultipleTouchConfiguration_def register_write_events_def
        writeRegisterAtAddress_eq I2Cdev_writeByte_def Let_def)

lemma setMultipleTouchConfiguration_invalid:
  fixes n :: byte
  assumes "unat n \<notin> {1..4}"
  shows "setMultipleTouchConfiguration R True n s = (False, s)"
proof -
  have "n \<noteq> 1" "n \<noteq> 2" "n \<noteq> 3" "n \<noteq> 4"
    using assms by auto
  then show ?thesis
    by (simp add: setMultipleTouchConfiguration_def)
qed

text \<open>
  C5. With the circuitry disabled, \<^verbatim>\<open>setMultipleTouchConfiguration\<close> writes \<open>0x00\<close> to
  the multiple-touch configuration register and returns \<^verbatim>\<open>true\<close>, whatever the count.
  With the circuitry enabled and a count of 1, 2, 3 or 4 it writes 128, 132, 136 or 140
  and returns \<^verbatim>\<open>true\<close>. With the circuitry enabled and any other count it returns
  \<^verbatim>\<open>false\<close> and leaves the whole state, log included, as it was.
\<close>

theorem setMultipleTouchConfiguration_codes:
  "one_register_write (setMultipleTouchConfiguration R False n s) s
     (CAP1188_MULTIPLE_TOUCH_CONFIGURATION_REG R) 0x00
   \<and> one_register_write (setMultipleTouchConfiguration R True 1 s) s
     (CAP1188_MULTIPLE_TOUCH_CONFIGURATION_REG R) 128
   \<and> one_register_write (setMultipleTouchConfiguration R True 2 s) s
     (CAP1188_MULTIPLE_TOUCH_CONFIGURATION_REG R) 132
   \<and> one_register_write (setMultipleTouchConfiguration R True 3 s) s
     (CAP1188_MULTIPLE_TOUCH_CONFIGURATION_REG R) 136
   \<and> one_register_write (setMultipleTouchConfiguration R True 4 s) s
     (CAP1188_MULTIPLE_TOUCH_CONFIGURATION_REG R) 140
   \<and> (unat n \<notin> {1..4} \<longrightarrow> setMultipleTouchConfiguration R True n s = (False, s))"
  using setMultipleTouchConfiguration_off [of R n s] setMultipleTouchConfiguration_on [of R s]
        setMultipleTouchConfiguration_invalid [of n R s]
  by blast

theorem setMultipleTouchConfiguration_codes_witness:
  "unat (9 :: byte) \<notin> {1..4}
   \<and> setMultipleTouchConfiguration example_map True 9 i2c_board = (False, i2c_board)
   \<and> setMultipleTouchConfiguration example_map False 9 i2c_board =
       (True, i2c_board\<lparr>regs := (regs i2c_board)(0x2A := 0x00),
                        trace := [I2cWrite 0x29 0x2A 0x00 True]\<rparr>)
   \<and> trace (snd (setMultipleTouchConfiguration example_map True 3 spi_board)) =
       [DigitalWrite 5 LOW, SpiTransfer (Some [0x7D, 0x2A]) None 2, DigitalWrite 5 HIGH,
        DigitalWrite 5 LOW, SpiTransfer (Some [0x7E, 136]) None 2, DigitalWrite 5 HIGH]"
proof -
  have out: "unat (9 :: byte) \<notin> {1..4}"
    by simp
  have off: "setMultipleTouchConfiguration example_map False 9 i2c_board =
       (True, i2c_board\<lparr>regs := (regs i2c_board)(0x2A := 0x00),
                        trace := [I2cWrite 0x29 0x2A 0x00 True]\<rparr>)"
    by (simp add: setMultipleTouchConfiguration_def I2Cdev_writeByte_def i2c_fails_def
          i2c_board_def example_map_def)
  have "setMultipleTouchConfiguration example_map True 9 i2c_board = (False, i2c_board)"
    using setMultipleTouchConfiguration_codes [of example_map 9 i2c_board] out by simp
  moreover have "trace (snd (setMultipleTouchConfiguration example_map True 3 spi_board)) =
       [DigitalWrite 5 LOW, SpiTransfer (Some [0x7D, 0x2A]) None 2, DigitalWrite 5 HIGH,
        DigitalWrite 5 LOW, SpiTransfer (Some [0x7E, 136]) None 2, DigitalWrite 5 HIGH]"
    using setMultipleTouchConfiguration_codes [of example_map 9 spi_board]
    by (simp add: one_register_write_def register_write_events_def spi_board_def example_map_def)
  ultimately show ?thesis
    using out off by simp
qed

section \<open>Per-channel thresholds\<close>

lemma byte_not_1_8:
  fixes c :: byte
  assumes "unat c \<notin> {1..8}"
  shows "c \<noteq> 1" "c \<noteq> 2" "c \<noteq> 3" "c \<noteq> 4" "c \<noteq> 5" "c \<noteq> 6" "c \<noteq> 7" "c \<noteq> 8"
  using assms by auto

lemma channel_cases:
  fixes c :: byte
  assumes "unat c \<in> {1..8}"
  shows "c \<in> {1, 2, 3, 4, 5, 6, 7, 8}"
proof -
  have "unat c \<in> {1, 2, 3, 4, 5, 6, 7, 8}"
    using assms by (simp add: atLeastAtMost_iff) arith
  moreover have "c = of_nat (unat c)"
    by simp
  ultimately show ?thesis
    by (elim insertE emptyE) simp_all
qed

lemma threshold_invalid:
  fixes c :: byte
  assumes "unat c \<notin> {1..8}"
  shows "setSensorInputThreshold R c v s = (False, s)"
    and "getSensorInputThreshold R c s = (0, s)"
  using byte_not_1_8 [OF assms]
  by (simp_all add: setSensorInputThreshold_def getSensorInputThreshold_def Let_def)

lemma threshold_set_get_i2c:
  assumes "c \<in> {1, 2, 3, 4, 5, 6, 7, 8}"
    and "i2c (this s)" and "True \<notin> set (i2c_faults s)"
  shows "fst (getSensorInputThreshold R c (snd (setSensorInputThreshold R c v s))) = v"
  using assms
  by (elim insertE emptyE)
     (simp_all add: getSensorInputThreshold_def setSensorInputThreshold_def
        I2Cdev_readByte_def I2Cdev_writeByte_def i2c_fails_def no_fault_case no_fault_tl Let_def)

lemma threshold_set_get_spi:
  assumes "c \<in> {1, 2, 3, 4, 5, 6, 7, 8}"
    and "\<not> i2c (this s)"
  shows "fst (getSensorInputThreshold R c (snd (setSensorInputThreshold R c v s))) = v"
  using assms
  by (elim insertE emptyE)
     (simp_all add: getSensorInputThreshold_def setSensorInputThreshold_def
        readRegisterFromAddress_eq writeRegisterAtAddress_eq Let_def)

text \<open>
  C6. For every channel number outside 1..8 (0, 9 and 255 among them),
  \<^verbatim>\<open>setSensorInputThreshold\<close> returns \<^verbatim>\<open>false\<close> and \<^verbatim>\<open>getSensorInputThreshold\<close>
  returns 0, its documented error value; neither makes any hardware transaction: the
  state after the call, register file and log included, is the state before it.
\<close>

theorem threshold_invalid_channel:
  fixes c :: byte
  assumes "unat c \<notin> {1..8}"
  shows "setSensorInputThreshold R c v s = (False, s) \<and> getSensorInputThreshold R c s = (0, s)"
  using assms by (simp only: threshold_invalid simp_thms)

theorem threshold_invalid_channel_witness:
  "unat (0 :: byte) \<notin> {1..8} \<and> unat (9 :: byte) \<notin> {1..8} \<and> unat (255 :: byte) \<notin> {1..8}
   \<and> setSensorInputThreshold example_map 0 0x40 i2c_board = (False, i2c_board)
   \<and> getSensorInputThreshold example_map 0 i2c_board = (0, i2c_board)
   \<and> setSensorInputThreshold example_map 9 0x40 spi_board = (False, spi_board)
   \<and> getSensorInputThreshold example_map 9 spi_board = (0, spi_board)
   \<and> setSensorInputThreshold example_map 255 0x40 i2c_board = (False, i2c_board)
   \<and> getSensorInputThreshold example_map 255 i2c_board = (0, i2c_board)"
proof -
  have c0: "unat (0 :: byte) \<notin> {1..8}" and c9: "unat (9 :: byte) \<notin> {1..8}"
    and c255: "unat (255 :: byte) \<notin> {1..8}"
    by simp_all
  show ?thesis
    using threshold_invalid_channel [OF c0, where R = example_map and v = 64 and s = i2c_board]
          threshold_invalid_channel [OF c9, where R = example_map and v = 64 and s = spi_board]
          threshold_invalid_channel [OF c255, where R = example_map and v = 64 and s = i2c_board]
          c0 c9 c255
    by simp
qed

text \<open>
  C7. For every channel number in 1..8 and every threshold byte, in every state with
  reliable transfers, \<^verbatim>\<open>getSensorInputThreshold\<close> run after
  \<^verbatim>\<open>setSensorInputThreshold\<close> on the same channel returns the byte that was set.
\<close>

theorem threshold_roundtrip:
  fixes c :: byte
  assumes "unat c \<in> {1..8}" and "reliable s"
  shows "fst (getSensorInputThreshold R c (snd (setSensorInputThreshold R c v s))) = v"
proof (cases "i2c (this s)")
  case True
  with assms(2) have "True \<notin> set (i2c_faults s)"
    by (simp add: reliable_def)
  with True show ?thesis
    by (rule threshold_set_get_i2c [OF channel_cases [OF assms(1)]])
next
  case False
  then show ?thesis
    by (rule threshold_set_get_spi [OF channel_cases [OF assms(1)]])
qed

theorem threshold_roundtrip_witness:
  "unat (3 :: byte) \<in> {1..8} \<and> reliable i2c_board \<and> reliable spi_board
   \<and> fst (getSensorInputThreshold example_map 3
            (snd (setSensorInputThreshold example_map 3 0x40 i2c_board))) = 0x40
   \<and> fst (getSensorInputThreshold example_map 3
            (snd (setSensorInputThreshold example_map 3 0x40 spi_board))) = 0x40"
proof -
  have c: "unat (3 :: byte) \<in> {1..8}"
    by simp
  have bus: "reliable i2c_board" and spi: "reliable spi_board"
    by (simp_all add: reliable_def i2c_board_def spi_board_def)
  show ?thesis
    using threshold_roundtrip [OF c bus, where R = example_map and v = 64]
          threshold_roundtrip [OF c spi, where R = example_map and v = 64] c bus spi
    by simp
qed

section \<open>Standby configuration\<close>

text \<open>Truncating the promoted expression to eight bits is the packing done on bytes.\<close>

lemma pack_word:
  "(word_of_int (push_bit 7 (uint a) OR push_bit 4 (uint b) OR push_bit 2 (uint c) OR uint d) :: byte)
     = push_bit 7 a OR push_bit 4 b OR push_bit 2 c OR d"
  for a b c d :: byte
  by (rule bit_word_eqI) (auto simp: bit_simps)

lemma byte_le_mask:
  fixes x :: byte
  shows "unat x \<le> 1 \<Longrightarrow> take_bit 1 x = x"
    and "unat x \<le> 7 \<Longrightarrow> take_bit 3 x = x"
    and "unat x \<le> 3 \<Longrightarrow> take_bit 2 x = x"
proof -
  have fits: "take_bit n x = x" if "x < 2 ^ n" for n
    using that by (simp add: take_bit_eq_mask less_mask_eq)
  show "unat x \<le> 1 \<Longrightarrow> take_bit 1 x = x"
    by (rule fits) (simp add: word_less_nat_alt)
  show "unat x \<le> 7 \<Longrightarrow> take_bit 3 x = x"
    by (rule fits) (simp add: word_less_nat_alt)
  show "unat x \<le> 3 \<Longrightarrow> take_bit 2 x = x"
    by (rule fits) (simp add: word_less_nat_alt)
qed

lemma unpack_fields:
  fixes a b c d :: byte
  defines "reg \<equiv> push_bit 7 (take_bit 1 a) OR push_bit 4 (take_bit 3 b)
                  OR push_bit 2 (take_bit 2 c) OR take_bit 2 d"
  shows "drop_bit 7 reg = take_bit 1 a"
    and "drop_bit 4 reg AND 7 = take_bit 3 b"
    and "drop_bit 2 reg AND 3 = take_bit 2 c"
    and "reg AND 3 = take_bit 2 d"
proof -
  have m7: "(7 :: byte) = mask 3" and m3: "(3 :: byte) = mask 2"
    by (simp_all add: mask_eq_exp_minus_1)
  show "drop_bit 7 reg = take_bit 1 a"
    unfolding reg_def by (rule bit_word_eqI) (auto simp: bit_simps)
  show "drop_bit 4 reg AND 7 = take_bit 3 b"
    unfolding reg_def m7 by (rule bit_word_eqI) (auto simp: bit_simps)
  show "drop_bit 2 reg AND 3 = take_bit 2 c"
    unfolding reg_def m3 by (rule bit_word_eqI) (auto simp: bit_simps)
  show "reg AND 3 = take_bit 2 d"
    unfolding reg_def m3 by (rule bit_word_eqI) (auto simp: bit_simps)
qed

lemma standby_fields:
  fixes a b c d :: byte
  assumes "unat a \<le> 1" "unat b \<le> 7" "unat c \<le> 3" "unat d \<le> 3"
  defines "reg \<equiv> (word_of_int (push_bit 7 (uint a) OR push_bit 4 (uint b)
                                 OR push_bit 2 (uint c) OR uint d) :: byte)"
  shows "drop_bit 7 reg = a" "drop_bit 4 reg AND 7 = b" "drop_bit 2 reg AND 3 = c" "reg AND 3 = d"
proof -
  have ta: "take_bit 1 a = a" and tb: "take_bit 3 b = b" and tc: "take_bit 2 c = c"
    and td: "take_bit 2 d = d"
    using assms(1-4) by (simp_all only: byte_le_mask)
  have reg: "reg = push_bit 7 a OR push_bit 4 b OR push_bit 2 c OR d"
    unfolding reg_def by (rule pack_word)
  note u = unpack_fields [of a b c d, unfolded ta tb tc td]
  show "drop_bit 7 reg = a" unfolding reg by (rule u(1))
  show "drop_bit 4 reg AND 7 = b" unfolding reg by (rule u(2))
  show "drop_bit 2 reg AND 3 = c" unfolding reg by (rule u(3))
  show "reg AND 3 = d" unfolding reg by (rule u(4))
qed

lemma standby_readback:
  assumes "reliable s"
  shows "fst (getStandbyConfiguration R (snd (setStandbyConfiguration R a b c d s))) =
     (let reg = (word_of_int (push_bit 7 (uint a) OR push_bit 4 (uint b)
                              OR push_bit 2 (uint c) OR uint d) :: byte)
      in (True, drop_bit 7 reg, drop_bit 4 reg AND 0x07, drop_bit 2 reg AND 0x03, reg AND 0x03))"
proof (cases "i2c (this s)")
  case True
  with assms have "True \<notin> set (i2c_faults s)"
    by (simp add: reliable_def)
  with True show ?thesis
    by (simp add: getStandbyConfiguration_def setStandbyConfiguration_def
          I2Cdev_readByte_def I2Cdev_writeByte_def i2c_fails_def no_fault_case no_fault_tl Let_def)
next
  case False
  then show ?thesis
    by (simp add: getStandbyConfiguration_def setStandbyConfiguration_def
          readRegisterFromAddress_eq writeRegisterAtAddress_eq Let_def)
qed

text \<open>
  C10. For \<open>averageSum\<close> in 0..1, \<open>samplesPerMeasurement\<close> in 0..7, \<open>samplingTime\<close> in
  0..3 and \<open>cycleTime\<close> in 0..3, in every state with reliable transfers,
  \<^verbatim>\<open>getStandbyConfiguration\<close> run after \<^verbatim>\<open>setStandbyConfiguration\<close> yields exactly
  those four values.
\<close>

theorem standby_roundtrip:
  assumes "unat averageSum \<le> 1" and "unat samplesPerMeasurement \<le> 7"
    and "unat samplingTime \<le> 3" and "unat cycleTime \<le> 3" and "reliable s"
  shows "fst (getStandbyConfiguration R
               (snd (setStandbyConfiguration R averageSum samplesPerMeasurement
                       samplingTime cycleTime s))) =
         (True, averageSum, samplesPerMeasurement, samplingTime, cycleTime)"
  unfolding standby_readback [OF assms(5)] Let_def
  by (simp only: standby_fields [OF assms(1-4)])

theorem standby_roundtrip_witness:
  "unat (1 :: byte) \<le> 1 \<and> unat (5 :: byte) \<le> 7 \<and> unat (2 :: byte) \<le> 3 \<and> unat (3 :: byte) \<le> 3
   \<and> reliable spi_board \<and> reliable i2c_board
   \<and> fst (getStandbyConfiguration example_map
            (snd (setStandbyConfiguration example_map 1 5 2 3 spi_board))) = (True, 1, 5, 2, 3)
   \<and> fst (getStandbyConfiguration example_map
            (snd (setStandbyConfiguration example_map 1 5 2 3 i2c_board))) = (True, 1, 5, 2, 3)"
proof -
  have a: "unat (1 :: byte) \<le> 1" and b: "unat (5 :: byte) \<le> 7"
    and c: "unat (2 :: byte) \<le> 3" and d: "unat (3 :: byte) \<le> 3"
    by simp_all
  have spi: "reliable spi_board" and bus: "reliable i2c_board"
    by (simp_all add: reliable_def i2c_board_def spi_board_def)
  show ?thesis
    using standby_roundtrip [OF a b c d spi, where R = example_map]
          standby_roundtrip [OF a b c d bus, where R = example_map] a b c d spi bus
    by simp
qed

section \<open>Initialisation\<close>

text \<open>
  C8. \<^verbatim>\<open>initI2C\<close> and \<^verbatim>\<open>initSPI\<close> drive the reset pin high, wait 10 ms and drive it
  low before their first register operation. \<^verbatim>\<open>initSPI\<close> then sends the two bytes
  \<open>0x7A, 0x7A\<close> inside one chip-select frame, after the reset pulse and before its first
  register operation. The log of each call is exactly the sequence below.
\<close>

theorem init_reset_sequence:
  "trace (initI2C R address rp s) =
     trace s @ [PinMode rp OUTPUT,
                DigitalWrite rp HIGH, Delay 10, DigitalWrite rp LOW,
                I2cWrite address (CAP1188_MULTIPLE_TOUCH_CONFIGURATION_REG R) 0 (\<not> i2c_fails s),
                I2cWrite address (CAP1188_SENSOR_INPUT_LED_LINKING_REG R) 0xFF
                  (\<not> i2c_fails (s\<lparr>i2c_faults := tl (i2c_faults s)\<rparr>))]
   \<and> trace (initSPI R cs rp s) =
     trace s @ [PinMode rp OUTPUT, PinMode cs OUTPUT,
                DigitalWrite rp HIGH, Delay 10, DigitalWrite rp LOW,
                DigitalWrite cs LOW, SpiTransfer (Some [0x7A, 0x7A]) None 2, DigitalWrite cs HIGH,
                DigitalWrite cs LOW,
                SpiTransfer (Some [0x7D, CAP1188_MULTIPLE_TOUCH_CONFIGURATION_REG R]) None 2,
                DigitalWrite cs HIGH,
                DigitalWrite cs LOW, SpiTransfer (Some [0x7E, 0]) None 2, DigitalWrite cs HIGH,
                DigitalWrite cs LOW,
                SpiTransfer (Some [0x7D, CAP1188_SENSOR_INPUT_LED_LINKING_REG R]) None 2,
                DigitalWrite cs HIGH,
                DigitalWrite cs LOW, SpiTransfer (Some [0x7E, 0xFF]) None 2, DigitalWrite cs HIGH]"
proof
  show "trace (initI2C R address rp s) =
     trace s @ [PinMode rp OUTPUT,
                DigitalWrite rp HIGH, Delay 10, DigitalWrite rp LOW,
                I2cWrite address (CAP1188_MULTIPLE_TOUCH_CONFIGURATION_REG R) 0 (\<not> i2c_fails s),
                I2cWrite address (CAP1188_SENSOR_INPUT_LED_LINKING_REG R) 0xFF
                  (\<not> i2c_fails (s\<lparr>i2c_faults := tl (i2c_faults s)\<rparr>))]"
    by (simp add: initI2C_def pinMode_def digitalWrite_def delay_def
          setMultipleTouchConfiguration_def setSensorInputLEDLinking_def
          I2Cdev_writeByte_def i2c_fails_def Let_def)
  show "trace (initSPI R cs rp s) =
     trace s @ [PinMode rp OUTPUT, PinMode cs OUTPUT,
                DigitalWrite rp HIGH, Delay 10, DigitalWrite rp LOW,
                DigitalWrite cs LOW, SpiTransfer (Some [0x7A, 0x7A]) None 2, DigitalWrite cs HIGH,
                DigitalWrite cs LOW,
                SpiTransfer (Some [0x7D, CAP1188_MULTIPLE_TOUCH_CONFIGURATION_REG R]) None 2,
                DigitalWrite cs HIGH,
                DigitalWrite cs LOW, SpiTransfer (Some [0x7E, 0]) None 2, DigitalWrite cs HIGH,
                DigitalWrite cs LOW,
                SpiTransfer (Some [0x7D, CAP1188_SENSOR_INPUT_LED_LINKING_REG R]) None 2,
                DigitalWrite cs HIGH,
                DigitalWrite cs LOW, SpiTransfer (Some [0x7E, 0xFF]) None 2, DigitalWrite cs HIGH]"
    by (simp add: initSPI_def pinMode_def digitalWrite_def delay_def
          setMultipleTouchConfiguration_def setSensorInputLEDLinking_def
          resetSPI_eq writeRegisterAtAddress_eq Let_def)
qed

section \<open>The handle after initialisation\<close>

lemma this_I2Cdev:
  "this (snd (I2Cdev_readByte dev a b s)) = this s"
  "this (snd (I2Cdev_writeByte dev a d s)) = this s"
  by (simp_all add: I2Cdev_readByte_def I2Cdev_writeByte_def)

lemma this_spi_engine:
  "this (snd (resetSPI s)) = this s"
  "this (snd (setRegisterAddress a s)) = this s"
  "this (snd (readRegister s)) = this s"
  "this (snd (writeRegister d s)) = this s"
  "this (snd (writeRegisterAtAddress a d s)) = this s"
  "this (snd (readRegisterFromAddress a s)) = this s"
  by (simp_all add: resetSPI_eq setRegisterAddress_eq readRegister_eq writeRegister_eq
        writeRegisterAtAddress_eq readRegisterFromAddress_eq)

lemmas this_prims = this_I2Cdev this_spi_engine

lemma this_identity:
  "this (snd (getProductId R s)) = this s"
  "this (snd (getManufacturerId R s)) = this s"
  "this (snd (getRevision R s)) = this s"
  by (cases "i2c (this s)";
      simp add: getProductId_def getManufacturerId_def getRevision_def this_prims Let_def split_beta)+

lemma this_config:
  "this (snd (setMultipleTouchConfiguration R en n s)) = this s"
  "this (snd (setSensorInputLEDLinking R l s)) = this s"
  "this (snd (setStandbyConfiguration R a b c d s)) = this s"
  "this (snd (getStandbyConfiguration R s)) = this s"
  "this (snd (setAveragingAndSamplingConfig R b c d s)) = this s"
  "this (snd (getAveragingAndSamplingConfig R s)) = this s"
  by (cases "i2c (this s)";
      simp add: setMultipleTouchConfiguration_def setSensorInputLEDLinking_def
        setStandbyConfiguration_def getStandbyConfiguration_def
        setAveragingAndSamplingConfig_def getAveragingAndSamplingConfig_def
        this_prims Let_def split_beta)+

lemma this_getSensorInputs:
  "this (snd (getSensorInputs R s)) = this s"
  by (cases "i2c (this s)"; simp add: getSensorInputs_def this_prims Let_def split_beta)

lemma this_setSensorInputThreshold:
  "this (snd (setSensorInputThreshold R c v s)) = this s"
  by (cases "i2c (this s)"; simp add: setSensorInputThreshold_def this_prims Let_def split_beta)

lemma this_getSensorInputThreshold:
  "this (snd (getSensorInputThreshold R c s)) = this s"
  by (cases "i2c (this s)"; simp add: getSensorInputThreshold_def this_prims Let_def split_beta)

lemma this_setSensorInputThresholdAll:
  "this (snd (setSensorInputThresholdAll R v s)) = this s"
  by (cases "i2c (this s)"; simp add: setSensorInputThresholdAll_def this_prims Let_def split_beta)

text \<open>
  C9. The four fields of the handle are assigned by \<^verbatim>\<open>initI2C\<close> and \<^verbatim>\<open>initSPI\<close>
  (each sets the transport tag, the reset pin and its own addressing field and leaves the
  other addressing field alone). Every other member function, public or private,
  returns with the handle it was called with: none of the four fields changes.
\<close>

theorem handle_written_by_init_only:
  "this (initI2C R address rp s) = (this s)\<lparr>i2c := True, i2cAddress := address, resetPin := rp\<rparr>
   \<and> this (initSPI R cs rp s) = (this s)\<lparr>i2c := False, resetPin := rp, csPin := cs\<rparr>
   \<and> this (snd (getProductId R s)) = this s
   \<and> this (snd (getManufacturerId R s)) = this s
   \<and> this (snd (getRevision R s)) = this s
   \<and> this (snd (getSensorInputs R s)) = this s
   \<and> this (snd (setMultipleTouchConfiguration R en n s)) = this s
   \<and> this (snd (setSensorInputLEDLinking R l s)) = this s
   \<and> this (snd (setStandbyConfiguration R a b c d s)) = this s
   \<and> this (snd (getStandbyConfiguration R s)) = this s
   \<and> this (snd (setAveragingAndSamplingConfig R b c d s)) = this s
   \<and> this (snd (getAveragingAndSamplingConfig R s)) = this s
   \<and> this (snd (setSensorInputThreshold R ch v s)) = this s
   \<and> this (snd (setSensorInputThresholdAll R v s)) = this s
   \<and> this (snd (getSensorInputThreshold R ch s)) = this s
   \<and> this (snd (readRegisterFromAddress ra s)) = this s
   \<and> this (snd (writeRegisterAtAddress ra v s)) = this s
   \<and> this (snd (resetSPI s)) = this s
   \<and> this (snd (setRegisterAddress ra s)) = this s
   \<and> this (snd (readRegister s)) = this s
   \<and> this (snd (writeRegister v s)) = this s"
proof -
  have "this (initI2C R address rp s) = (this s)\<lparr>i2c := True, i2cAddress := address, resetPin := rp\<rparr>"
    by (simp add: initI2C_def pinMode_def digitalWrite_def delay_def this_config Let_def split_beta)
  moreover have "this (initSPI R cs rp s) = (this s)\<lparr>i2c := False, resetPin := rp, csPin := cs\<rparr>"
    by (simp add: initSPI_def pinMode_def digitalWrite_def delay_def this_config this_spi_engine
          Let_def split_beta)
  ultimately show ?thesis
    by (simp only: this_identity this_config this_getSensorInputs this_setSensorInputThreshold
          this_getSensorInputThreshold this_setSensorInputThresholdAll this_spi_engine simp_thms)
qed

section \<open>A failing transfer\<close>

text \<open>
  The claim C4 reads: whenever the underlying transfer primitive fails, every operation
  propagates that failure to its caller, and an operation whose transfer failed does not
  report success. On the board whose next I2C transfer fails the write primitive returns
  \<^verbatim>\<open>false\<close>, and \<^verbatim>\<open>setSensorInputLEDLinking\<close>, having made that very transfer,
  returns \<^verbatim>\<open>true\<close>.
\<close>

theorem failed_transfer_reported_as_success:
  "fst (I2Cdev_writeByte 0x29 0x72 0xFF i2c_board_down) = False
   \<and> setSensorInputLEDLinking example_map 0xFF i2c_board_down =
       (True, i2c_board\<lparr>trace := [I2cWrite 0x29 0x72 0xFF False]\<rparr>)"
  by (simp add: setSensorInputLEDLinking_def I2Cdev_writeByte_def i2c_fails_def
        i2c_board_down_def i2c_board_def example_map_def)

text \<open>
  C4, as the code has it. The status of the transfer primitive is dropped, not
  propagated: \<^verbatim>\<open>setSensorInputLEDLinking\<close> and \<^verbatim>\<open>writeRegisterAtAddress\<close> return
  \<^verbatim>\<open>true\<close> in every state. When the I2C write fails, \<^verbatim>\<open>setSensorInputLEDLinking\<close>
  still returns \<^verbatim>\<open>true\<close>, after exactly one attempt (there is no retry) that is logged
  as failed and that leaves the register file as it was.
\<close>

theorem transfer_status_dropped:
  "fst (setSensorInputLEDLinking R l s) = True
   \<and> fst (writeRegisterAtAddress a d s) = True
   \<and> (i2c (this s) \<and> i2c_fails s \<longrightarrow>
        setSensorInputLEDLinking R l s =
          (True, s\<lparr>i2c_faults := tl (i2c_faults s),
                   trace := trace s @ [I2cWrite (i2cAddress (this s))
                                         (CAP1188_SENSOR_INPUT_LED_LINKING_REG R) l False]\<rparr>))"
  by (simp add: setSensorInputLEDLinking_def writeRegisterAtAddress_eq I2Cdev_writeByte_def
        Let_def split_beta)

theorem transfer_status_dropped_witness:
  "i2c (this i2c_board_down) \<and> i2c_fails i2c_board_down
   \<and> fst (setSensorInputLEDLinking example_map 0xFF i2c_board_down) = True
   \<and> regs (snd (setSensorInputLEDLinking example_map 0xFF i2c_board_down)) = regs i2c_board_down
   \<and> trace (snd (setSensorInputLEDLinking example_map 0xFF i2c_board_down)) =
       [I2cWrite 0x29 0x72 0xFF False]"
proof -
  have down: "i2c (this i2c_board_down) \<and> i2c_fails i2c_board_down"
    by (simp add: i2c_board_down_def i2c_board_def i2c_fails_def)
  show ?thesis
    using transfer_status_dropped [where R = example_map and l = 255 and s = i2c_board_down] down
    by (simp add: i2c_board_down_def i2c_board_def example_map_def)
qed

end
